theory Spec2Isabelle
  imports Complex_Main
begin

section \<open>CRT audio oscilloscope: values, errors and the outside world\<close>

text \<open>
  The program is one Python file, \<^verbatim>\<open>crt_audio_oscilloscope.py\<close>. Python values that
  can come out of \<^verbatim>\<open>json.load\<close> are a datatype; a JSON object is the association list of
  its members, looked up with \<open>map_of\<close>. Floating-point numbers are modelled as real
  numbers: rounding, infinities and NaN are outside the model.
\<close>

datatype pyval =
    PNone
  | PBool bool
  | PInt int
  | PFloat real
  | PStr string
  | PList "pyval list"
  | PDict "(string \<times> pyval) list"

datatype error =
    OSError
  | JSONDecodeError
  | AttributeError
  | TypeError
  | ValueError
  | KeyError
  | RuntimeError
  | EOFError
  | PortAudioError

datatype 'a outcome = Raise error | Return 'a

text \<open>Every line the program prints, and every prompt \<^verbatim>\<open>input\<close> shows.\<close>

datatype message =
    ErrorLoadingConfig error
  | CorruptConfigRemoved
  | SettingsSaved
  | ErrorSavingConfig error
  | UsingSavedMicrophone pyval
  | AvailableMicrophones
  | MicrophoneLine int string
  | SelectPrompt int
  | InvalidInput
  | ErrorDeviceInfo
  | StatusMsg
  | NoAudioData
  | Starting
  | ErrorStartingStream error
  | TryDifferentMicrophone

text \<open>
  What is stored under \<^verbatim>\<open>CONFIG_FILE\<close>: something \<^verbatim>\<open>open\<close> cannot read (a directory,
  a file without read permission), text that \<^verbatim>\<open>json.load\<close> rejects, or a document,
  given as the value \<^verbatim>\<open>json.load\<close> returns for it.
\<close>

datatype file_content = Unreadable | Malformed | Doc pyval

text \<open>
  The world outside the process: the configuration path (\<open>None\<close> when
  \<^verbatim>\<open>os.path.exists\<close> is false), whether \<^verbatim>\<open>os.remove\<close> and \<^verbatim>\<open>open(..., "w")\<close> succeed
  on it, the lines still to be read from standard input, and what has been printed.
\<close>

record world =
  config_file :: "file_content option"
  removable :: bool
  writable :: bool
  stdin :: "string list"
  stdout :: "message list"

record device =
  name :: string
  max_input_channels :: int

text \<open>
  The library calls whose results the program only passes on: the device table of
  \<^verbatim>\<open>sd.query_devices()\<close>, the default sample rate of a device (\<open>None\<close> when the query
  raises), whether \<^verbatim>\<open>sd.InputStream\<close> opens for a device, rate and block size, and the
  built-ins \<^verbatim>\<open>float\<close> and \<^verbatim>\<open>int\<close> on strings (\<open>None\<close> for \<^verbatim>\<open>ValueError\<close>).
\<close>

record env =
  devices :: "device list"
  default_samplerate :: "pyval \<Rightarrow> real option"
  stream_opens :: "pyval \<Rightarrow> real \<Rightarrow> nat \<Rightarrow> bool"
  float_of_str :: "string \<Rightarrow> real option"
  int_of_str :: "string \<Rightarrow> int option"

definition print :: "message \<Rightarrow> world \<Rightarrow> world" where
  "print m w = w\<lparr>stdout := stdout w @ [m]\<rparr>"

section \<open>Built-ins\<close>

text \<open>\<^verbatim>\<open>float(x)\<close>.\<close>

fun py_float :: "env \<Rightarrow> pyval \<Rightarrow> real outcome" where
  "py_float e (PFloat r) = Return r"
| "py_float e (PInt i) = Return (of_int i)"
| "py_float e (PBool b) = Return (if b then 1 else 0)"
| "py_float e (PStr s) = (case float_of_str e s of None \<Rightarrow> Raise ValueError | Some r \<Rightarrow> Return r)"
| "py_float e PNone = Raise TypeError"
| "py_float e (PList xs) = Raise TypeError"
| "py_float e (PDict kvs) = Raise TypeError"

text \<open>\<^verbatim>\<open>config.get(key, default)\<close> on whatever \<^verbatim>\<open>json.load\<close> returned.\<close>

fun py_get :: "pyval \<Rightarrow> string \<Rightarrow> pyval \<Rightarrow> pyval outcome" where
  "py_get (PDict kvs) k d = Return (case map_of kvs k of None \<Rightarrow> d | Some v \<Rightarrow> v)"
| "py_get PNone k d = Raise AttributeError"
| "py_get (PBool b) k d = Raise AttributeError"
| "py_get (PInt i) k d = Raise AttributeError"
| "py_get (PFloat r) k d = Raise AttributeError"
| "py_get (PStr s) k d = Raise AttributeError"
| "py_get (PList xs) k d = Raise AttributeError"

text \<open>\<^verbatim>\<open>saved_device == dev[0]\<close>, the right-hand side being an \<^verbatim>\<open>int\<close>.\<close>

fun py_eq_int :: "pyval \<Rightarrow> int \<Rightarrow> bool" where
  "py_eq_int (PInt j) i = (j = i)"
| "py_eq_int (PFloat r) i = (r = of_int i)"
| "py_eq_int (PBool b) i = ((if b then 1 else 0) = i)"
| "py_eq_int PNone i = False"
| "py_eq_int (PStr s) i = False"
| "py_eq_int (PList xs) i = False"
| "py_eq_int (PDict kvs) i = False"

text \<open>\<^verbatim>\<open>np.clip(x, lo, hi)\<close> on one sample: \<^verbatim>\<open>minimum(maximum(x, lo), hi)\<close>.\<close>

definition clip :: "real \<Rightarrow> real \<Rightarrow> real \<Rightarrow> real" where
  "clip x lo hi = min (max x lo) hi"

section \<open>\<^verbatim>\<open>queue.Queue\<close>\<close>

text \<open>
  The standard library's queue: \<open>maxsize q = 0\<close> means unbounded; \<^verbatim>\<open>put_nowait\<close>
  raises \<^verbatim>\<open>Full\<close> when \<^verbatim>\<open>qsize() >= maxsize\<close>, and \<^verbatim>\<open>get\<close> with a timeout raises
  \<^verbatim>\<open>Empty\<close> when nothing arrived in time. Items leave at the head of the list.
\<close>

record 'a py_queue =
  maxsize :: nat
  items :: "'a list"

datatype queue_error = Full | Empty

definition Queue :: "nat \<Rightarrow> 'a py_queue" where
  "Queue n = \<lparr>maxsize = n, items = []\<rparr>"

definition put_nowait :: "'a py_queue \<Rightarrow> 'a \<Rightarrow> queue_error + 'a py_queue" where
  "put_nowait q x =
     (if 0 < maxsize q \<and> maxsize q \<le> length (items q) then Inl Full
      else Inr (q\<lparr>items := items q @ [x]\<rparr>))"

definition get_timeout :: "'a py_queue \<Rightarrow> queue_error + ('a \<times> 'a py_queue)" where
  "get_timeout q =
     (case items q of [] \<Rightarrow> Inl Empty | x # xs \<Rightarrow> Inr (x, q\<lparr>items := xs\<rparr>))"

section \<open>Settings persistence\<close>

text \<open>A Python \<^verbatim>\<open>dict\<close> with string keys, as \<^verbatim>\<open>load_config\<close> returns it.\<close>

type_synonym config = "string \<rightharpoonup> pyval"

text \<open>
  The \<^verbatim>\<open>try\<close> block of \<^verbatim>\<open>load_config\<close>: open, \<^verbatim>\<open>json.load\<close>, then the dictionary
  literal, whose three entries are evaluated in order.
\<close>

definition read_config :: "env \<Rightarrow> file_content \<Rightarrow> config outcome" where
  "read_config e c =
     (case c of
        Unreadable \<Rightarrow> Raise OSError
      | Malformed \<Rightarrow> Raise JSONDecodeError
      | Doc cfg \<Rightarrow>
          (case py_get cfg ''device_index'' (PInt 0) of
             Raise x \<Rightarrow> Raise x
           | Return d \<Rightarrow>
               (case py_get cfg ''gain'' (PFloat 1.0) of
                  Raise x \<Rightarrow> Raise x
                | Return g0 \<Rightarrow>
                    (case py_float e g0 of
                       Raise x \<Rightarrow> Raise x
                     | Return g \<Rightarrow>
                         (case py_get cfg ''smoothing'' (PFloat 0.8) of
                            Raise x \<Rightarrow> Raise x
                          | Return s0 \<Rightarrow>
                              (case py_float e s0 of
                                 Raise x \<Rightarrow> Raise x
                               | Return s \<Rightarrow>
                                   Return [''device_index'' \<mapsto> d,
                                           ''gain'' \<mapsto> PFloat g,
                                           ''smoothing'' \<mapsto> PFloat s]))))))"

definition load_config :: "env \<Rightarrow> world \<Rightarrow> config outcome \<times> world" where
  "load_config e w =
     (case config_file w of
        None \<Rightarrow> (Return Map.empty, w)
      | Some c \<Rightarrow>
          (case read_config e c of
             Return cfg \<Rightarrow> (Return cfg, w)
           | Raise x \<Rightarrow>
               (let w1 = print (ErrorLoadingConfig x) w in
                if removable w1
                then (Return Map.empty, print CorruptConfigRemoved (w1\<lparr>config_file := None\<rparr>))
                else (Raise OSError, w1))))"

text \<open>
  The \<^verbatim>\<open>try\<close> block of \<^verbatim>\<open>save_config\<close> up to \<^verbatim>\<open>open\<close>: the three subscripts raise
  \<^verbatim>\<open>KeyError\<close> on a missing key.
\<close>

definition json_safe_config :: "env \<Rightarrow> config \<Rightarrow> pyval outcome" where
  "json_safe_config e config =
     (case config ''device_index'' of
        None \<Rightarrow> Raise KeyError
      | Some d \<Rightarrow>
          (case config ''gain'' of
             None \<Rightarrow> Raise KeyError
           | Some g0 \<Rightarrow>
               (case py_float e g0 of
                  Raise x \<Rightarrow> Raise x
                | Return g \<Rightarrow>
                    (case config ''smoothing'' of
                       None \<Rightarrow> Raise KeyError
                     | Some s0 \<Rightarrow>
                         (case py_float e s0 of
                            Raise x \<Rightarrow> Raise x
                          | Return s \<Rightarrow>
                              Return (PDict [(''device_index'', d),
                                             (''gain'', PFloat g),
                                             (''smoothing'', PFloat s)]))))))"

definition save_config :: "env \<Rightarrow> config \<Rightarrow> world \<Rightarrow> world" where
  "save_config e config w =
     (case json_safe_config e config of
        Raise x \<Rightarrow> print (ErrorSavingConfig x) w
      | Return doc \<Rightarrow>
          if writable w
          then print SettingsSaved (w\<lparr>config_file := Some (Doc doc)\<rparr>)
          else print (ErrorSavingConfig OSError) w)"

section \<open>Device selection\<close>

text \<open>
  \<^verbatim>\<open>[(i, d["name"]) for i, d in enumerate(sd.query_devices()) if d["max_input_channels"] > 0]\<close>
\<close>

fun enumerate_from :: "int \<Rightarrow> 'a list \<Rightarrow> (int \<times> 'a) list" where
  "enumerate_from i [] = []"
| "enumerate_from i (x # xs) = (i, x) # enumerate_from (i + 1) xs"

definition valid_devices :: "env \<Rightarrow> (int \<times> string) list" where
  "valid_devices e =
     map (\<lambda>(i, d). (i, name d))
       (filter (\<lambda>(i, d). 0 < max_input_channels d) (enumerate_from 0 (devices e)))"

text \<open>\<^verbatim>\<open>any(x == dev[0] for dev in valid_devices)\<close>, for \<^verbatim>\<open>x\<close> the saved value and for
  \<^verbatim>\<open>x\<close> the integer just entered.\<close>

definition saved_is_valid :: "pyval \<Rightarrow> (int \<times> string) list \<Rightarrow> bool" where
  "saved_is_valid saved vds = list_ex (\<lambda>dev. py_eq_int saved (fst dev)) vds"

definition selected_is_valid :: "int \<Rightarrow> (int \<times> string) list \<Rightarrow> bool" where
  "selected_is_valid selected vds = list_ex (\<lambda>dev. selected = fst dev) vds"

text \<open>
  The \<^verbatim>\<open>while True\<close> loop of \<^verbatim>\<open>get_device\<close>, over the lines left on standard input.
  Each round shows the prompt and reads one line; \<^verbatim>\<open>input\<close> raises \<^verbatim>\<open>EOFError\<close> when no
  line is left, which the loop does not catch. An empty line stands for the default
  (\<^verbatim>\<open>input(...) or valid_devices[0][0]\<close>); \<^verbatim>\<open>int\<close> of anything else may raise
  \<^verbatim>\<open>ValueError\<close>, which prints a message; an integer outside the list starts the next
  round without a message. The result is the outcome, the lines left and the messages.
\<close>

fun select_loop ::
  "env \<Rightarrow> (int \<times> string) list \<Rightarrow> int \<Rightarrow> string list \<Rightarrow> int outcome \<times> string list \<times> message list"
where
  "select_loop e vds dflt [] = (Raise EOFError, [], [SelectPrompt dflt])"
| "select_loop e vds dflt (l # ls) =
     (case (if l = [] then Some dflt else int_of_str e l) of
        None \<Rightarrow>
          (case select_loop e vds dflt ls of
             (r, rest, ms) \<Rightarrow> (r, rest, SelectPrompt dflt # InvalidInput # ms))
      | Some selected \<Rightarrow>
          if selected_is_valid selected vds then (Return selected, ls, [SelectPrompt dflt])
          else
            (case select_loop e vds dflt ls of
               (r, rest, ms) \<Rightarrow> (r, rest, SelectPrompt dflt # ms)))"

text \<open>\<^verbatim>\<open>get_device(saved_device)\<close>; \<open>PNone\<close> is Python's \<^verbatim>\<open>None\<close>.\<close>

definition get_device :: "env \<Rightarrow> pyval \<Rightarrow> world \<Rightarrow> pyval outcome \<times> world" where
  "get_device e saved_device w =
     (case valid_devices e of
        [] \<Rightarrow> (Raise RuntimeError, w)
      | dev0 # others \<Rightarrow>
          if saved_device \<noteq> PNone \<and> saved_is_valid saved_device (dev0 # others)
          then (Return saved_device, print (UsingSavedMicrophone saved_device) w)
          else
            (let w1 = w\<lparr>stdout := stdout w @ AvailableMicrophones #
                                     map (\<lambda>(idx, nm). MicrophoneLine idx nm) (dev0 # others)\<rparr>
             in case select_loop e (dev0 # others) (fst dev0) (stdin w1) of
                  (r, rest, ms) \<Rightarrow>
                    (case r of Raise x \<Rightarrow> Raise x | Return i \<Rightarrow> Return (PInt i),
                     w1\<lparr>stdin := rest, stdout := stdout w1 @ ms\<rparr>)))"

section \<open>The oscilloscope object\<close>

text \<open>
  One row of \<^verbatim>\<open>indata\<close>: the stream is opened with \<^verbatim>\<open>channels=1\<close>, so every row has a
  first channel; \<^verbatim>\<open>indata[:, 0]\<close> is the list of first components.
\<close>

type_synonym frame = "real \<times> real list"

text \<open>The fields of \<^verbatim>\<open>CRT_Oscilloscope\<close> that are not plot widgets; \<open>ydata\<close> is what
  \<^verbatim>\<open>self.line\<close> shows.\<close>

record scope =
  block_size :: nat
  config :: config
  device :: pyval
  fs :: real
  gain :: real
  smoothing :: real
  audio_queue :: "real list py_queue"
  fullscreen :: bool
  ydata :: "real list"

text \<open>
  \<^verbatim>\<open>self.config.get(key, default)\<close> for the two numeric settings. \<^verbatim>\<open>load_config\<close> returns
  either the empty dictionary or one whose \<^verbatim>\<open>gain\<close> and \<^verbatim>\<open>smoothing\<close> are floats (lemma
  \<open>load_config_floats\<close> below), so the last case never applies to its result.
\<close>

definition config_get_float :: "config \<Rightarrow> string \<Rightarrow> real \<Rightarrow> real" where
  "config_get_float cfg k d =
     (case cfg k of None \<Rightarrow> d | Some (PFloat r) \<Rightarrow> r | Some _ \<Rightarrow> d)"

text \<open>\<^verbatim>\<open>self.config.get("device_index")\<close>: \<^verbatim>\<open>None\<close> for a missing key.\<close>

definition config_get_device :: "config \<Rightarrow> pyval" where
  "config_get_device cfg = (case cfg ''device_index'' of None \<Rightarrow> PNone | Some v \<Rightarrow> v)"

text \<open>\<^verbatim>\<open>CRT_Oscilloscope.__init__\<close>, without the plot set-up.\<close>

definition init :: "env \<Rightarrow> nat \<Rightarrow> world \<Rightarrow> scope outcome \<times> world" where
  "init e bs w =
     (case load_config e w of
        (Raise x, w1) \<Rightarrow> (Raise x, w1)
      | (Return cfg, w1) \<Rightarrow>
          (case get_device e (config_get_device cfg) w1 of
             (Raise x, w2) \<Rightarrow> (Raise x, w2)
           | (Return dev, w2) \<Rightarrow>
               (let (rate, w3) =
                      (case default_samplerate e dev of
                         Some r \<Rightarrow> (r, w2)
                       | None \<Rightarrow> (44100, print ErrorDeviceInfo w2))
                in (Return \<lparr>block_size = bs, config = cfg, device = dev, fs = rate,
                            gain = config_get_float cfg ''gain'' 1.0,
                            smoothing = config_get_float cfg ''smoothing'' 0.8,
                            audio_queue = Queue 10, fullscreen = False,
                            ydata = replicate bs 0\<rparr>, w3))))"

text \<open>\<^verbatim>\<open>save_state\<close> and the two slider handlers; the argument is the slider's value.\<close>

definition state_config :: "scope \<Rightarrow> config" where
  "state_config s = [''device_index'' \<mapsto> device s,
                     ''gain'' \<mapsto> PFloat (gain s),
                     ''smoothing'' \<mapsto> PFloat (smoothing s)]"

definition save_state :: "env \<Rightarrow> scope \<Rightarrow> world \<Rightarrow> world" where
  "save_state e s w = save_config e (state_config s) w"

definition update_gain :: "env \<Rightarrow> real \<Rightarrow> scope \<Rightarrow> world \<Rightarrow> scope \<times> world" where
  "update_gain e v s w = (let s1 = s\<lparr>gain := v\<rparr> in (s1, save_state e s1 w))"

definition update_smoothing :: "env \<Rightarrow> real \<Rightarrow> scope \<Rightarrow> world \<Rightarrow> scope \<times> world" where
  "update_smoothing e v s w = (let s1 = s\<lparr>smoothing := v\<rparr> in (s1, save_state e s1 w))"

text \<open>
  \<^verbatim>\<open>audio_callback(indata, frames, time_info, status)\<close>: the block handed off is the
  first channel times the gain, clipped; \<^verbatim>\<open>queue.Full\<close> is swallowed.
\<close>

definition process_block :: "real \<Rightarrow> frame list \<Rightarrow> real list" where
  "process_block g indata = map (\<lambda>x. clip (x * g) (- 1) 1) (map fst indata)"

definition audio_callback :: "frame list \<Rightarrow> bool \<Rightarrow> scope \<Rightarrow> world \<Rightarrow> scope \<times> world" where
  "audio_callback indata status s w =
     (let w1 = (if status then print StatusMsg w else w) in
      if length indata = 0 then (s, print NoAudioData w1)
      else
        (case put_nowait (audio_queue s) (process_block (gain s) indata) of
           Inl err \<Rightarrow> (s, w1)
         | Inr q \<Rightarrow> (s\<lparr>audio_queue := q\<rparr>, w1)))"

section \<open>The render loop\<close>

text \<open>
  What happens while the stream is open, as a sequence of atomic steps: the audio thread
  calls the callback; the render loop runs one iteration (the window still exists); the
  operator moves a slider. The window is closed when the sequence is used up.
\<close>

datatype event =
    Callback "frame list" bool
  | RenderIteration
  | GainSlider real
  | SmoothingSlider real

definition render_iteration :: "scope \<Rightarrow> scope" where
  "render_iteration s =
     (case get_timeout (audio_queue s) of
        Inl err \<Rightarrow> s
      | Inr (new_waveform, q) \<Rightarrow> s\<lparr>audio_queue := q, ydata := new_waveform\<rparr>)"

fun step :: "env \<Rightarrow> event \<Rightarrow> scope \<times> world \<Rightarrow> scope \<times> world" where
  "step e (Callback indata status) (s, w) = audio_callback indata status s w"
| "step e RenderIteration (s, w) = (render_iteration s, w)"
| "step e (GainSlider v) (s, w) = update_gain e v s w"
| "step e (SmoothingSlider v) (s, w) = update_smoothing e v s w"

fun run_loop :: "env \<Rightarrow> event list \<Rightarrow> scope \<times> world \<Rightarrow> scope \<times> world" where
  "run_loop e [] sw = sw"
| "run_loop e (ev # evs) sw = run_loop e evs (step e ev sw)"

text \<open>\<^verbatim>\<open>run\<close>: the events only happen when the stream opened.\<close>

definition run :: "env \<Rightarrow> event list \<Rightarrow> scope \<Rightarrow> world \<Rightarrow> scope \<times> world" where
  "run e evs s w =
     (let w1 = print Starting w;
          (s2, w2) =
            (if stream_opens e (device s) (fs s) (block_size s)
             then run_loop e evs (s, w1)
             else (s, print TryDifferentMicrophone (print (ErrorStartingStream PortAudioError) w1)))
      in (s2, save_config e (state_config s2) w2))"

text \<open>\<^verbatim>\<open>CRT_Oscilloscope().run()\<close>, the main program.\<close>

definition main :: "env \<Rightarrow> event list \<Rightarrow> world \<Rightarrow> unit outcome \<times> world" where
  "main e evs w =
     (case init e 2048 w of
        (Raise x, w1) \<Rightarrow> (Raise x, w1)
      | (Return s, w1) \<Rightarrow> (Return (), snd (run e evs s w1)))"

section \<open>Sample inputs\<close>

text \<open>
  Feeding the callback a list of blocks, one call each, with no status flag; and one
  concrete machine, used where a statement is evaluated on an input: three devices, of
  which the first has no input channel, and a stream that opens for device 1 only.
\<close>

definition callbacks :: "frame list list \<Rightarrow> event list" where
  "callbacks blocks = map (\<lambda>b. Callback b False) blocks"

definition env0 :: env where
  "env0 = \<lparr>devices = [\<lparr>name = ''HDMI output'', max_input_channels = 0\<rparr>,
                       \<lparr>name = ''Built-in microphone'', max_input_channels = 2\<rparr>,
                       \<lparr>name = ''USB microphone'', max_input_channels = 1\<rparr>],
            default_samplerate = (\<lambda>d. if d = PInt 1 then Some 48000 else None),
            stream_opens = (\<lambda>d r b. d = PInt 1),
            float_of_str = (\<lambda>s. if s = ''1.5'' then Some 1.5 else None),
            int_of_str = (\<lambda>s. if s = ''1'' then Some 1 else if s = ''2'' then Some 2
                               else if s = ''7'' then Some 7 else None)\<rparr>"

definition world0 :: world where
  "world0 = \<lparr>config_file = None, removable = True, writable = True, stdin = [], stdout = []\<rparr>"

definition scope0 :: scope where
  "scope0 = \<lparr>block_size = 2, config = Map.empty, device = PInt 2, fs = 44100,
             gain = 2.0, smoothing = 0.8, audio_queue = Queue 10, fullscreen = False,
             ydata = [0, 0]\<rparr>"

definition blocks10 :: "frame list list" where
  "blocks10 = map (\<lambda>i. [(of_int i / 4, []), (- of_int i / 8, [])]) [0, 1, 2, 3, 4, 5, 6, 7, 8, 9]"

text \<open>
  The dictionary \<^verbatim>\<open>save_state\<close> builds, for an integer device index; a document with
  only a gain; and two worlds whose configuration file does not parse, one where the
  file can be removed and one where it cannot.
\<close>

definition settings :: "int \<Rightarrow> real \<Rightarrow> real \<Rightarrow> config" where
  "settings d g m = [''device_index'' \<mapsto> PInt d, ''gain'' \<mapsto> PFloat g, ''smoothing'' \<mapsto> PFloat m]"

definition partial_doc :: pyval where
  "partial_doc = PDict [(''gain'', PFloat 2.0)]"

definition corrupt_world :: world where
  "corrupt_world = \<lparr>config_file = Some Malformed, removable = True, writable = True,
                     stdin = [], stdout = []\<rparr>"

definition locked_world :: world where
  "locked_world = \<lparr>config_file = Some Malformed, removable = False, writable = False,
                    stdin = [], stdout = []\<rparr>"

section \<open>The capture callback and the hand-off queue\<close>







lemma put_nowait_full: "maxsize q = 10 \<Longrightarrow> length (items q) = 10 \<Longrightarrow> put_nowait q b = Inl Full"
  by (simp add: put_nowait_def)

lemma audio_callback_full:
  "maxsize (audio_queue s) = 10 \<Longrightarrow> length (items (audio_queue s)) = 10 \<Longrightarrow>
   fst (audio_callback indata st s w) = s"
  by (simp add: audio_callback_def put_nowait_def Let_def)

lemma audio_callback_queue:
  "maxsize (audio_queue (fst (audio_callback indata st s w))) = maxsize (audio_queue s)
   \<and> gain (fst (audio_callback indata st s w)) = gain s"
  by (simp add: audio_callback_def put_nowait_def Let_def)

lemma audio_callback_bounded:
  "maxsize (audio_queue s) = 10 \<Longrightarrow> length (items (audio_queue s)) \<le> 10 \<Longrightarrow>
   length (items (audio_queue (fst (audio_callback indata st s w)))) \<le> 10"
  by (simp add: audio_callback_def put_nowait_def Let_def)

lemma render_iteration_bounded:
  "maxsize (audio_queue (render_iteration s)) = maxsize (audio_queue s)
   \<and> length (items (audio_queue (render_iteration s))) \<le> length (items (audio_queue s))"
  by (simp add: render_iteration_def get_timeout_def split: list.splits)

lemma step_bounded:
  assumes "maxsize (audio_queue (fst sw)) = 10" "length (items (audio_queue (fst sw))) \<le> 10"
  shows "maxsize (audio_queue (fst (step e ev sw))) = 10
         \<and> length (items (audio_queue (fst (step e ev sw)))) \<le> 10"
proof (cases sw)
  case (Pair s w)
  show ?thesis
  proof (cases ev)
    case (Callback indata st)
    with Pair assms show ?thesis
      using audio_callback_queue [of indata st s w] audio_callback_bounded [of s indata st w]
      by simp
  next
    case RenderIteration
    with Pair assms show ?thesis
      using render_iteration_bounded [of s] by simp
  next
    case (GainSlider v)
    with Pair assms show ?thesis by (simp add: update_gain_def Let_def)
  next
    case (SmoothingSlider v)
    with Pair assms show ?thesis by (simp add: update_smoothing_def Let_def)
  qed
qed

lemma run_loop_bounded:
  "maxsize (audio_queue (fst sw)) = 10 \<Longrightarrow> length (items (audio_queue (fst sw))) \<le> 10 \<Longrightarrow>
   maxsize (audio_queue (fst (run_loop e evs sw))) = 10
   \<and> length (items (audio_queue (fst (run_loop e evs sw)))) \<le> 10"
proof (induction evs arbitrary: sw)
  case Nil
  then show ?case by simp
next
  case (Cons ev evs)
  have "maxsize (audio_queue (fst (step e ev sw))) = 10
        \<and> length (items (audio_queue (fst (step e ev sw)))) \<le> 10"
    using step_bounded Cons.prems by blast
  then show ?case using Cons.IH [of "step e ev sw"] by simp
qed

lemma run_loop_append: "run_loop e (xs @ ys) sw = run_loop e ys (run_loop e xs sw)"
  by (induction xs arbitrary: sw) auto

lemma callbacks_fill:
  assumes "[] \<notin> set blocks"
  shows "items (audio_queue (fst (run_loop e (callbacks blocks) (s\<lparr>audio_queue := Queue 10\<rparr>, w))))
           = take 10 (map (process_block (gain s)) blocks)
         \<and> maxsize (audio_queue (fst (run_loop e (callbacks blocks) (s\<lparr>audio_queue := Queue 10\<rparr>, w)))) = 10
         \<and> gain (fst (run_loop e (callbacks blocks) (s\<lparr>audio_queue := Queue 10\<rparr>, w))) = gain s"
  using assms
proof (induction blocks rule: rev_induct)
  case Nil
  then show ?case by (simp add: callbacks_def Queue_def)
next
  case (snoc b blocks)
  let ?sw = "run_loop e (callbacks blocks) (s\<lparr>audio_queue := Queue 10\<rparr>, w)"
  obtain s1 w1 where sw: "?sw = (s1, w1)" by (cases ?sw)
  have ih: "items (audio_queue s1) = take 10 (map (process_block (gain s)) blocks)"
    "maxsize (audio_queue s1) = 10" "gain s1 = gain s"
    using snoc sw by auto
  have b: "b \<noteq> []" using snoc.prems by auto
  have run: "run_loop e (callbacks (blocks @ [b])) (s\<lparr>audio_queue := Queue 10\<rparr>, w)
             = audio_callback b False s1 w1"
    by (simp add: callbacks_def run_loop_append sw [unfolded callbacks_def])
  show ?case
  proof (cases "length blocks < 10")
    case True
    then show ?thesis
      using ih b by (simp add: run audio_callback_def put_nowait_def Let_def)
  next
    case False
    then show ?thesis
      using ih b by (simp add: run audio_callback_def put_nowait_def Let_def)
  qed
qed

text \<open>
  Claim C1. Under any sequence of callbacks, render iterations and slider moves the
  queue created by \<^verbatim>\<open>queue.Queue(maxsize=10)\<close> never holds more than ten blocks. A
  \<^verbatim>\<open>put_nowait\<close> on the full queue raises \<^verbatim>\<open>Full\<close>, and the callback then leaves the
  queue as it was. Blocks enter at the tail and leave at the head. Eleven callbacks
  with no render iteration in between leave exactly the first ten blocks, in order,
  and the eleventh \<^verbatim>\<open>put_nowait\<close> raises \<^verbatim>\<open>Full\<close>.
\<close>

theorem handoff_queue_bounded_newest_drop:
  "(maxsize (audio_queue s) = 10 \<and> length (items (audio_queue s)) \<le> 10 \<longrightarrow>
      length (items (audio_queue (fst (run_loop e evs (s, w))))) \<le> 10)
   \<and> (maxsize q = 10 \<and> length (items q) = 10 \<longrightarrow> put_nowait q b = Inl Full)
   \<and> (maxsize (audio_queue s) = 10 \<and> length (items (audio_queue s)) = 10 \<longrightarrow>
        audio_queue (fst (audio_callback indata st s w)) = audio_queue s)
   \<and> (put_nowait q b = Inr q' \<longrightarrow> items q' = items q @ [b])
   \<and> (get_timeout q = Inr (b, q') \<longrightarrow> items q = b # items q')
   \<and> (length blocks = 10 \<and> [] \<notin> set blocks \<and> b11 \<noteq> [] \<longrightarrow>
        items (audio_queue (fst (run_loop e (callbacks blocks) (s\<lparr>audio_queue := Queue 10\<rparr>, w))))
          = map (process_block (gain s)) blocks
        \<and> put_nowait (audio_queue (fst (run_loop e (callbacks blocks) (s\<lparr>audio_queue := Queue 10\<rparr>, w))))
            (process_block (gain s) b11) = Inl Full
        \<and> items (audio_queue (fst (run_loop e (callbacks (blocks @ [b11])) (s\<lparr>audio_queue := Queue 10\<rparr>, w))))
          = map (process_block (gain s)) blocks)"
proof -
  have inv: "maxsize (audio_queue s) = 10 \<and> length (items (audio_queue s)) \<le> 10 \<longrightarrow>
      length (items (audio_queue (fst (run_loop e evs (s, w))))) \<le> 10"
    using run_loop_bounded [of "(s, w)" e evs] by simp
  have full: "maxsize q = 10 \<and> length (items q) = 10 \<longrightarrow> put_nowait q b = Inl Full"
    by (simp add: put_nowait_def)
  have kept: "maxsize (audio_queue s) = 10 \<and> length (items (audio_queue s)) = 10 \<longrightarrow>
        audio_queue (fst (audio_callback indata st s w)) = audio_queue s"
    using audio_callback_full [of s indata st w] by simp
  have tail: "put_nowait q b = Inr q' \<longrightarrow> items q' = items q @ [b]"
    by (auto simp: put_nowait_def split: if_splits)
  have head: "get_timeout q = Inr (b, q') \<longrightarrow> items q = b # items q'"
    by (auto simp: get_timeout_def split: list.splits)
  have scen: "length blocks = 10 \<and> [] \<notin> set blocks \<and> b11 \<noteq> [] \<longrightarrow>
        items (audio_queue (fst (run_loop e (callbacks blocks) (s\<lparr>audio_queue := Queue 10\<rparr>, w))))
          = map (process_block (gain s)) blocks
        \<and> put_nowait (audio_queue (fst (run_loop e (callbacks blocks) (s\<lparr>audio_queue := Queue 10\<rparr>, w))))
            (process_block (gain s) b11) = Inl Full
        \<and> items (audio_queue (fst (run_loop e (callbacks (blocks @ [b11])) (s\<lparr>audio_queue := Queue 10\<rparr>, w))))
          = map (process_block (gain s)) blocks"
  proof (intro impI, elim conjE)
    assume len: "length blocks = 10" and ne: "[] \<notin> set blocks" and b11: "b11 \<noteq> []"
    let ?s10 = "fst (run_loop e (callbacks blocks) (s\<lparr>audio_queue := Queue 10\<rparr>, w))"
    have ten: "items (audio_queue ?s10) = map (process_block (gain s)) blocks"
      "maxsize (audio_queue ?s10) = 10"
      using callbacks_fill [OF ne, of e s w] len by simp_all
    have drop: "put_nowait (audio_queue ?s10) (process_block (gain s) b11) = Inl Full"
      using ten len by (simp add: put_nowait_def)
    have ne': "[] \<notin> set (blocks @ [b11])" using ne b11 by auto
    have eleven: "items (audio_queue (fst (run_loop e (callbacks (blocks @ [b11])) (s\<lparr>audio_queue := Queue 10\<rparr>, w))))
          = map (process_block (gain s)) blocks"
      using callbacks_fill [OF ne', of e s w] len by simp
    show "items (audio_queue ?s10) = map (process_block (gain s)) blocks
        \<and> put_nowait (audio_queue ?s10) (process_block (gain s) b11) = Inl Full
        \<and> items (audio_queue (fst (run_loop e (callbacks (blocks @ [b11])) (s\<lparr>audio_queue := Queue 10\<rparr>, w))))
          = map (process_block (gain s)) blocks"
      using ten drop eleven by simp
  qed
  show ?thesis using inv full kept tail head scen by blast
qed

theorem handoff_queue_bounded_newest_drop_witness:
  "length blocks10 = 10 \<and> [] \<notin> set blocks10
   \<and> items (audio_queue (fst (run_loop env0 (callbacks (blocks10 @ [[(0.5, [])]]))
                                 (scope0\<lparr>audio_queue := Queue 10\<rparr>, world0))))
       = map (process_block (gain scope0)) blocks10
   \<and> maxsize (audio_queue scope0) = 10 \<and> length (items (audio_queue scope0)) \<le> 10
   \<and> length (items (audio_queue (fst (run_loop env0
         [Callback [(0.5, [])] False, GainSlider 3, RenderIteration, RenderIteration]
         (scope0, world0))))) \<le> 10"
proof -
  have a: "length blocks10 = 10" by (simp add: blocks10_def)
  have b: "[] \<notin> set blocks10" by (simp add: blocks10_def)
  have c: "[(0.5::real, [] :: real list)] \<noteq> []" by simp
  have m: "maxsize (audio_queue scope0) = 10" by (simp add: scope0_def Queue_def)
  have l: "length (items (audio_queue scope0)) \<le> 10" by (simp add: scope0_def Queue_def)
  note all = handoff_queue_bounded_newest_drop
       [of scope0 env0 "[Callback [(0.5, [])] False, GainSlider 3, RenderIteration, RenderIteration]"
           world0 "Queue 10" "[]" "[]" False "Queue 10" blocks10 "[(0.5, [])]"]
  note inv = all [THEN conjunct1, THEN mp, OF conjI [OF m l]]
  note scen = all [THEN conjunct2, THEN conjunct2, THEN conjunct2, THEN conjunct2, THEN conjunct2,
        THEN mp, OF conjI [OF a conjI [OF b c]]]
  have d: "items (audio_queue (fst (run_loop env0 (callbacks (blocks10 @ [[(0.5, [])]]))
                                 (scope0\<lparr>audio_queue := Queue 10\<rparr>, world0))))
       = map (process_block (gain scope0)) blocks10"
    using scen by (elim conjE)
  show ?thesis using a b d m l inv by simp
qed

section \<open>Loading and saving the settings\<close>

lemma json_safe_settings:
  "json_safe_config e [''device_index'' \<mapsto> d, ''gain'' \<mapsto> PFloat g, ''smoothing'' \<mapsto> PFloat m]
     = Return (PDict [(''device_index'', d), (''gain'', PFloat g), (''smoothing'', PFloat m)])"
  by (simp add: json_safe_config_def)

lemma read_config_saved:
  "read_config e (Doc (PDict [(''device_index'', d), (''gain'', PFloat g), (''smoothing'', PFloat m)]))
     = Return [''device_index'' \<mapsto> d, ''gain'' \<mapsto> PFloat g, ''smoothing'' \<mapsto> PFloat m]"
  by (simp add: read_config_def)

lemma save_config_writes:
  "writable w \<Longrightarrow>
   save_config e [''device_index'' \<mapsto> d, ''gain'' \<mapsto> PFloat g, ''smoothing'' \<mapsto> PFloat m] w
     = print SettingsSaved (w\<lparr>config_file :=
         Some (Doc (PDict [(''device_index'', d), (''gain'', PFloat g), (''smoothing'', PFloat m)]))\<rparr>)"
  by (simp add: save_config_def json_safe_settings)

lemma load_after_save:
  "writable w \<Longrightarrow>
   load_config e (save_config e [''device_index'' \<mapsto> d, ''gain'' \<mapsto> PFloat g, ''smoothing'' \<mapsto> PFloat m] w)
     = (Return [''device_index'' \<mapsto> d, ''gain'' \<mapsto> PFloat g, ''smoothing'' \<mapsto> PFloat m],
        save_config e [''device_index'' \<mapsto> d, ''gain'' \<mapsto> PFloat g, ''smoothing'' \<mapsto> PFloat m] w)"
  by (simp add: save_config_writes load_config_def print_def read_config_saved)

text \<open>
  Claim C3. For settings with an integer device index \<open>d \<ge> 0\<close>, a gain in
  \<open>[0.5, 50.0]\<close> and a smoothing in \<open>[0.0, 0.99]\<close>, a save that can write the file
  followed by a load returns the same dictionary.
\<close>

theorem load_save_fixed_point:
  "0 \<le> d \<Longrightarrow> 0.5 \<le> g \<Longrightarrow> g \<le> 50.0 \<Longrightarrow> 0.0 \<le> m \<Longrightarrow> m \<le> 0.99 \<Longrightarrow> writable w \<Longrightarrow>
   fst (load_config e (save_config e (settings d g m) w)) = Return (settings d g m)"
  by (simp add: settings_def load_after_save)

theorem load_save_fixed_point_witness:
  "fst (load_config env0 (save_config env0 (settings 1 2.5 0.8) world0)) = Return (settings 1 2.5 0.8)"
proof -
  have w: "writable world0" by (simp add: world0_def)
  show ?thesis using load_save_fixed_point [of 1 "2.5" "0.8" world0 env0] w by simp
qed

lemma load_config_absent: "config_file w = None \<Longrightarrow> load_config e w = (Return Map.empty, w)"
  by (simp add: load_config_def)

lemma load_config_ok:
  "config_file w = Some c \<Longrightarrow> read_config e c = Return cfg \<Longrightarrow> load_config e w = (Return cfg, w)"
  by (simp add: load_config_def)

lemma load_config_recover:
  "config_file w = Some c \<Longrightarrow> read_config e c = Raise x \<Longrightarrow> removable w \<Longrightarrow>
   load_config e w = (Return Map.empty,
      w\<lparr>config_file := None, stdout := stdout w @ [ErrorLoadingConfig x, CorruptConfigRemoved]\<rparr>)"
  by (simp add: load_config_def print_def Let_def)

lemma load_config_raise:
  "config_file w = Some c \<Longrightarrow> read_config e c = Raise x \<Longrightarrow> \<not> removable w \<Longrightarrow>
   load_config e w = (Raise OSError, w\<lparr>stdout := stdout w @ [ErrorLoadingConfig x]\<rparr>)"
  by (simp add: load_config_def print_def Let_def)

lemma read_config_dict:
  "read_config e (Doc (PDict kvs)) = Return cfg \<Longrightarrow>
   cfg ''device_index'' = Some (case map_of kvs ''device_index'' of None \<Rightarrow> PInt 0 | Some v \<Rightarrow> v)
   \<and> (map_of kvs ''gain'' = None \<longrightarrow> cfg ''gain'' = Some (PFloat 1.0))
   \<and> (map_of kvs ''smoothing'' = None \<longrightarrow> cfg ''smoothing'' = Some (PFloat 0.8))"
  by (auto simp: read_config_def split: outcome.splits option.splits)

lemma read_config_floats:
  "read_config e c = Return cfg \<Longrightarrow>
   \<exists>d g m. cfg = [''device_index'' \<mapsto> d, ''gain'' \<mapsto> PFloat g, ''smoothing'' \<mapsto> PFloat m]"
  by (auto simp: read_config_def split: file_content.splits outcome.splits)

lemma load_config_floats:
  "load_config e w = (Return cfg, w') \<Longrightarrow>
   cfg = Map.empty \<or>
   (\<exists>d g m. cfg = [''device_index'' \<mapsto> d, ''gain'' \<mapsto> PFloat g, ''smoothing'' \<mapsto> PFloat m])"
  using read_config_floats
  by (auto simp: load_config_def Let_def split: option.splits outcome.splits if_splits)

text \<open>
  Claim C4, as stated, fails: a document that parses and has no \<^verbatim>\<open>device_index\<close>
  member loads with \<^verbatim>\<open>device_index\<close> equal to 0, the default written in
  \<^verbatim>\<open>config.get("device_index", 0)\<close>, not with an unset index.
\<close>

theorem missing_device_index_not_unset:
  "map_of [(''gain'', PFloat 2.0)] ''device_index'' = None
   \<and> fst (load_config env0 (world0\<lparr>config_file := Some (Doc partial_doc)\<rparr>))
       = Return [''device_index'' \<mapsto> PInt 0, ''gain'' \<mapsto> PFloat 2.0, ''smoothing'' \<mapsto> PFloat 0.8]
   \<and> config_get_device [''device_index'' \<mapsto> PInt 0, ''gain'' \<mapsto> PFloat 2.0, ''smoothing'' \<mapsto> PFloat 0.8]
       = PInt 0
   \<and> PInt 0 \<noteq> PNone"
  by (simp add: load_config_def read_config_def partial_doc_def world0_def config_get_device_def)

text \<open>
  Claim C4, amended. For a stored object whose present \<^verbatim>\<open>gain\<close> and \<^verbatim>\<open>smoothing\<close>
  convert to floats, so that the \<^verbatim>\<open>try\<close> block returns, load substitutes a default for
  each missing member: \<^verbatim>\<open>device_index\<close> 0, \<^verbatim>\<open>gain\<close> 1.0, \<^verbatim>\<open>smoothing\<close> 0.8.
\<close>

theorem load_config_missing_field_defaults:
  "config_file w = Some (Doc (PDict kvs)) \<Longrightarrow> read_config e (Doc (PDict kvs)) = Return cfg \<Longrightarrow>
   load_config e w = (Return cfg, w)
   \<and> (map_of kvs ''device_index'' = None \<longrightarrow> cfg ''device_index'' = Some (PInt 0))
   \<and> (map_of kvs ''gain'' = None \<longrightarrow> cfg ''gain'' = Some (PFloat 1.0))
   \<and> (map_of kvs ''smoothing'' = None \<longrightarrow> cfg ''smoothing'' = Some (PFloat 0.8))"
  using load_config_ok [of w "Doc (PDict kvs)" e cfg] read_config_dict [of e kvs cfg]
  by (simp split: option.splits)

theorem load_config_missing_field_defaults_witness:
  "config_file (world0\<lparr>config_file := Some (Doc (PDict [(''smoothing'', PInt 0)]))\<rparr>)
     = Some (Doc (PDict [(''smoothing'', PInt 0)]))
   \<and> read_config env0 (Doc (PDict [(''smoothing'', PInt 0)]))
       = Return [''device_index'' \<mapsto> PInt 0, ''gain'' \<mapsto> PFloat 1.0, ''smoothing'' \<mapsto> PFloat 0]
   \<and> map_of [(''smoothing'', PInt 0)] ''device_index'' = None
   \<and> map_of [(''smoothing'', PInt 0)] ''gain'' = None
   \<and> load_config env0 (world0\<lparr>config_file := Some (Doc (PDict [(''smoothing'', PInt 0)]))\<rparr>)
       = (Return [''device_index'' \<mapsto> PInt 0, ''gain'' \<mapsto> PFloat 1.0, ''smoothing'' \<mapsto> PFloat 0],
          world0\<lparr>config_file := Some (Doc (PDict [(''smoothing'', PInt 0)]))\<rparr>)"
proof -
  have f: "config_file (world0\<lparr>config_file := Some (Doc (PDict [(''smoothing'', PInt 0)]))\<rparr>)
     = Some (Doc (PDict [(''smoothing'', PInt 0)]))" by simp
  have r: "read_config env0 (Doc (PDict [(''smoothing'', PInt 0)]))
       = Return [''device_index'' \<mapsto> PInt 0, ''gain'' \<mapsto> PFloat 1.0, ''smoothing'' \<mapsto> PFloat 0]"
    by (simp add: read_config_def)
  show ?thesis
    using f r load_config_missing_field_defaults [OF f r] by simp
qed

text \<open>
  Claim C6, as stated, fails: when the file does not parse and \<^verbatim>\<open>os.remove\<close> raises,
  \<^verbatim>\<open>load_config\<close> raises instead of returning, and the file is still there.
\<close>

theorem corrupt_config_locked_raises:
  "config_file locked_world = Some Malformed
   \<and> read_config env0 Malformed = Raise JSONDecodeError
   \<and> load_config env0 locked_world
       = (Raise OSError, locked_world\<lparr>stdout := [ErrorLoadingConfig JSONDecodeError]\<rparr>)
   \<and> config_file (snd (load_config env0 locked_world)) = Some Malformed"
  by (simp add: load_config_def read_config_def locked_world_def print_def Let_def)

text \<open>
  Claim C6, amended. When the content cannot be read, parsed or converted and the file
  can be removed, \<^verbatim>\<open>load_config\<close> returns the empty dictionary (read as the default
  settings), the file no longer exists, and the next load returns the same as for a
  missing file, with no further effect.
\<close>

theorem corrupt_config_recovered:
  "config_file w = Some c \<Longrightarrow> read_config e c = Raise x \<Longrightarrow> removable w \<Longrightarrow>
   fst (load_config e w) = Return Map.empty
   \<and> config_get_device Map.empty = PNone
   \<and> config_get_float Map.empty ''gain'' 1.0 = 1.0
   \<and> config_get_float Map.empty ''smoothing'' 0.8 = 0.8
   \<and> config_file (snd (load_config e w)) = None
   \<and> load_config e (snd (load_config e w)) = (Return Map.empty, snd (load_config e w))"
  by (simp add: load_config_recover load_config_absent config_get_device_def config_get_float_def)

theorem corrupt_config_recovered_witness:
  "config_file corrupt_world = Some Malformed
   \<and> read_config env0 Malformed = Raise JSONDecodeError
   \<and> removable corrupt_world
   \<and> load_config env0 corrupt_world
       = (Return Map.empty,
          corrupt_world\<lparr>config_file := None,
                         stdout := [ErrorLoadingConfig JSONDecodeError, CorruptConfigRemoved]\<rparr>)
   \<and> fst (load_config env0 (snd (load_config env0 corrupt_world))) = Return Map.empty"
proof -
  have f: "config_file corrupt_world = Some Malformed" by (simp add: corrupt_world_def)
  have r: "read_config env0 Malformed = Raise JSONDecodeError" by (simp add: read_config_def)
  have d: "removable corrupt_world" by (simp add: corrupt_world_def)
  have l: "load_config env0 corrupt_world
       = (Return Map.empty,
          corrupt_world\<lparr>config_file := None,
                         stdout := [ErrorLoadingConfig JSONDecodeError, CorruptConfigRemoved]\<rparr>)"
    by (simp add: load_config_def r print_def Let_def corrupt_world_def)
  show ?thesis
    using f r d l corrupt_config_recovered [OF f r d] by simp
qed

text \<open>What makes the \<^verbatim>\<open>try\<close> block raise: the content cannot be read or parsed, the
  document is not an object, or a present \<^verbatim>\<open>gain\<close> or \<^verbatim>\<open>smoothing\<close> does not convert.\<close>

lemma load_config_raises_iff:
  "(\<exists>x. fst (load_config e w) = Raise x) =
   (\<exists>c y. config_file w = Some c \<and> read_config e c = Raise y \<and> \<not> removable w)"
  by (auto simp: load_config_def Let_def print_def split: option.splits outcome.splits)

lemma load_config_raises_OSError:
  "fst (load_config e w) = Raise x \<Longrightarrow> x = OSError"
  by (auto simp: load_config_def Let_def print_def split: option.splits outcome.splits if_splits)

text \<open>
  Claim C10. \<^verbatim>\<open>load_config\<close> raises exactly when the file exists, the \<^verbatim>\<open>try\<close> block
  raises (unreadable, unparsable, not an object, or a member that does not convert) and
  \<^verbatim>\<open>os.remove\<close> raises; what propagates is the error of \<^verbatim>\<open>os.remove\<close>. In every other
  case it returns.
\<close>

theorem load_config_partial:
  "((\<exists>x. fst (load_config e w) = Raise x) =
      (\<exists>c y. config_file w = Some c \<and> read_config e c = Raise y \<and> \<not> removable w))
   \<and> (fst (load_config e w) = Raise x \<longrightarrow> x = OSError)
   \<and> (config_file w = None \<longrightarrow> (\<exists>cfg. fst (load_config e w) = Return cfg))
   \<and> (removable w \<longrightarrow> (\<exists>cfg. fst (load_config e w) = Return cfg))
   \<and> (\<forall>c cfg. config_file w = Some c \<and> read_config e c = Return cfg \<longrightarrow>
         fst (load_config e w) = Return cfg)
   \<and> read_config e Unreadable = Raise OSError
   \<and> read_config e Malformed = Raise JSONDecodeError
   \<and> read_config e (Doc (PList xs)) = Raise AttributeError
   \<and> read_config e (Doc (PDict [(''gain'', PNone)])) = Raise TypeError"
proof -
  have a: "(\<exists>x. fst (load_config e w) = Raise x) =
      (\<exists>c y. config_file w = Some c \<and> read_config e c = Raise y \<and> \<not> removable w)"
    by (rule load_config_raises_iff)
  have b: "fst (load_config e w) = Raise x \<longrightarrow> x = OSError"
    using load_config_raises_OSError by blast
  have c: "config_file w = None \<longrightarrow> (\<exists>cfg. fst (load_config e w) = Return cfg)"
    by (simp add: load_config_def)
  have d: "removable w \<longrightarrow> (\<exists>cfg. fst (load_config e w) = Return cfg)"
    by (auto simp: load_config_def Let_def print_def split: option.splits outcome.splits)
  have f: "\<forall>c cfg. config_file w = Some c \<and> read_config e c = Return cfg \<longrightarrow>
         fst (load_config e w) = Return cfg"
    by (simp add: load_config_def)
  have g: "read_config e Unreadable = Raise OSError
     \<and> read_config e Malformed = Raise JSONDecodeError
     \<and> read_config e (Doc (PList xs)) = Raise AttributeError
     \<and> read_config e (Doc (PDict [(''gain'', PNone)])) = Raise TypeError"
    by (simp add: read_config_def)
  show ?thesis using a b c d f g by blast
qed

theorem load_config_partial_witness:
  "config_file locked_world = Some Malformed
   \<and> read_config env0 Malformed = Raise JSONDecodeError
   \<and> \<not> removable locked_world
   \<and> fst (load_config env0 locked_world) = Raise OSError
   \<and> removable corrupt_world
   \<and> fst (load_config env0 corrupt_world) = Return Map.empty"
  using load_config_partial [of env0 locked_world OSError "[]"] load_config_partial [of env0 corrupt_world OSError "[]"]
  by (simp add: load_config_def read_config_def locked_world_def corrupt_world_def print_def Let_def)

section \<open>Start-up and device selection\<close>

lemma select_loop_prompts:
  "\<exists>ms. snd (snd (select_loop e vds dflt ls)) = SelectPrompt dflt # ms"
  by (cases ls) (auto split: option.splits prod.splits)

lemma get_device_none_prompts:
  assumes "valid_devices e = dev0 # others"
  shows "\<exists>ms. stdout (snd (get_device e PNone w)) =
           stdout w @ AvailableMicrophones # map (\<lambda>(idx, nm). MicrophoneLine idx nm) (dev0 # others)
             @ SelectPrompt (fst dev0) # ms"
proof -
  obtain r rest ms where sl: "select_loop e (dev0 # others) (fst dev0) (stdin w) = (r, rest, ms)"
    by (cases "select_loop e (dev0 # others) (fst dev0) (stdin w)") auto
  obtain ms' where "ms = SelectPrompt (fst dev0) # ms'"
    using select_loop_prompts [of e "dev0 # others" "fst dev0" "stdin w"] sl by auto
  then show ?thesis
    using assms sl by (simp add: get_device_def Let_def)
qed


lemma selected_is_valid_iff: "selected_is_valid i vds = (i \<in> fst ` set vds)"
  by (auto simp: selected_is_valid_def list_ex_iff)

lemma saved_is_valid_iff: "saved_is_valid v vds = (\<exists>i \<in> fst ` set vds. py_eq_int v i)"
  by (auto simp: saved_is_valid_def list_ex_iff)

lemma saved_int_is_valid: "saved_is_valid (PInt i) vds = (i \<in> fst ` set vds)"
  by (auto simp: saved_is_valid_iff)

lemma select_loop_returns_valid:
  "fst (select_loop e vds dflt ls) = Return i \<Longrightarrow> i \<in> fst ` set vds"
proof (induction ls)
  case Nil
  then show ?case by simp
next
  case (Cons l ls)
  then show ?case
    by (auto simp: selected_is_valid_iff split: option.splits if_splits prod.splits)
qed

lemma select_loop_default:
  "dflt \<in> fst ` set vds \<Longrightarrow> select_loop e vds dflt ([] # ls) = (Return dflt, ls, [SelectPrompt dflt])"
  by (simp add: selected_is_valid_iff)

lemma select_loop_out_of_set:
  "l \<noteq> [] \<Longrightarrow> int_of_str e l = Some k \<Longrightarrow> k \<notin> fst ` set vds \<Longrightarrow>
   select_loop e vds dflt (l # ls) =
     (fst (select_loop e vds dflt ls), fst (snd (select_loop e vds dflt ls)),
      SelectPrompt dflt # snd (snd (select_loop e vds dflt ls)))"
  by (simp add: selected_is_valid_iff split: prod.splits)

lemma select_loop_not_numeric:
  "l \<noteq> [] \<Longrightarrow> int_of_str e l = None \<Longrightarrow>
   select_loop e vds dflt (l # ls) =
     (fst (select_loop e vds dflt ls), fst (snd (select_loop e vds dflt ls)),
      SelectPrompt dflt # InvalidInput # snd (snd (select_loop e vds dflt ls)))"
  by (simp split: prod.splits)

lemma get_device_saved:
  "valid_devices e \<noteq> [] \<Longrightarrow> saved \<noteq> PNone \<Longrightarrow> saved_is_valid saved (valid_devices e) \<Longrightarrow>
   get_device e saved w = (Return saved, print (UsingSavedMicrophone saved) w)"
  by (cases "valid_devices e") (simp_all add: get_device_def)

lemma get_device_prompts:
  assumes "valid_devices e = dev0 # others"
    and "saved = PNone \<or> \<not> saved_is_valid saved (valid_devices e)"
  shows "get_device e saved w =
     (case fst (select_loop e (dev0 # others) (fst dev0) (stdin w)) of
        Raise x \<Rightarrow> Raise x | Return i \<Rightarrow> Return (PInt i),
      w\<lparr>stdin := fst (snd (select_loop e (dev0 # others) (fst dev0) (stdin w))),
        stdout := stdout w @ AvailableMicrophones #
                    map (\<lambda>(idx, nm). MicrophoneLine idx nm) (dev0 # others) @
                    snd (snd (select_loop e (dev0 # others) (fst dev0) (stdin w)))\<rparr>)"
  using assms
  by (auto simp: get_device_def Let_def split: prod.splits simp del: select_loop.simps)

lemma get_device_prompt_shown:
  assumes "valid_devices e = dev0 # others"
    and "saved = PNone \<or> \<not> saved_is_valid saved (valid_devices e)"
  shows "\<exists>ms. stdout (snd (get_device e saved w)) =
           stdout w @ AvailableMicrophones # map (\<lambda>(idx, nm). MicrophoneLine idx nm) (dev0 # others)
             @ SelectPrompt (fst dev0) # ms"
  using select_loop_prompts [of e "dev0 # others" "fst dev0" "stdin w"]
  by (auto simp: get_device_prompts [OF assms] simp del: select_loop.simps)

lemma get_device_prompt_result:
  assumes "valid_devices e = dev0 # others"
    and "saved = PNone \<or> \<not> saved_is_valid saved (valid_devices e)"
    and "fst (get_device e saved w) = Return v"
  shows "\<exists>i \<in> fst ` set (valid_devices e). v = PInt i"
proof -
  from assms(3) obtain i where i: "fst (select_loop e (dev0 # others) (fst dev0) (stdin w)) = Return i"
    and v: "v = PInt i"
    by (auto simp: get_device_prompts [OF assms(1,2)] split: outcome.splits simp del: select_loop.simps)
  from select_loop_returns_valid [OF i] assms(1) v show ?thesis by auto
qed

lemma get_device_result:
  assumes "fst (get_device e saved w) = Return v"
  shows "\<exists>i \<in> fst ` set (valid_devices e). py_eq_int v i \<and> (v = PInt i \<or> v = saved)"
proof (cases "valid_devices e")
  case Nil
  with assms show ?thesis by (simp add: get_device_def)
next
  case (Cons dev0 others)
  show ?thesis
  proof (cases "saved \<noteq> PNone \<and> saved_is_valid saved (valid_devices e)")
    case True
    then have "v = saved" using assms Cons by (simp add: get_device_saved)
    then show ?thesis using True by (auto simp: saved_is_valid_iff)
  next
    case False
    then have "saved = PNone \<or> \<not> saved_is_valid saved (valid_devices e)" by blast
    from get_device_prompt_result [OF Cons this assms]
    obtain i where "i \<in> fst ` set (valid_devices e)" "v = PInt i" by blast
    then have "i \<in> fst ` set (valid_devices e) \<and> py_eq_int v i \<and> (v = PInt i \<or> v = saved)"
      by simp
    then show ?thesis by blast
  qed
qed

lemma enumerate_from_lower: "(i, x) \<in> set (enumerate_from k xs) \<Longrightarrow> k \<le> i"
proof (induction xs arbitrary: k)
  case Nil
  then show ?case by simp
next
  case (Cons y ys)
  from Cons.prems have "i = k \<or> (i, x) \<in> set (enumerate_from (k + 1) ys)" by auto
  then show ?case using Cons.IH [of "k + 1"] by auto
qed

lemma enumerate_from_set:
  "(i, x) \<in> set (enumerate_from k xs) \<Longrightarrow> k \<le> i \<and> nat (i - k) < length xs \<and> x = xs ! nat (i - k)"
proof (induction xs arbitrary: k)
  case Nil
  then show ?case by simp
next
  case (Cons y ys)
  show ?case
  proof (cases "i = k")
    case True
    have "(i, x) \<notin> set (enumerate_from (k + 1) ys)"
      using enumerate_from_lower [of i x "k + 1" ys] True by auto
    with Cons.prems True show ?thesis by auto
  next
    case False
    with Cons.prems have m: "(i, x) \<in> set (enumerate_from (k + 1) ys)" by auto
    from Cons.IH [OF m] have h: "k + 1 \<le> i" "nat (i - (k + 1)) < length ys"
      "x = ys ! nat (i - (k + 1))" by auto
    have "nat (i - k) = Suc (nat (i - (k + 1)))" using h(1) by linarith
    then show ?thesis using h by simp
  qed
qed

lemma valid_devices_eligible:
  assumes "i \<in> fst ` set (valid_devices e)"
  shows "0 \<le> i \<and> nat i < length (devices e) \<and> 0 < max_input_channels (devices e ! nat i)"
proof -
  from assms obtain d where m: "(i, d) \<in> set (enumerate_from 0 (devices e))"
    and c: "0 < max_input_channels d"
    by (auto simp: valid_devices_def)
  from enumerate_from_set [OF m] c show ?thesis by simp
qed

lemma init_absent:
  "config_file w = None \<Longrightarrow>
   init e bs w =
     (case get_device e PNone w of
        (Raise x, w2) \<Rightarrow> (Raise x, w2)
      | (Return dev, w2) \<Rightarrow>
          (let (rate, w3) =
                 (case default_samplerate e dev of
                    Some r \<Rightarrow> (r, w2)
                  | None \<Rightarrow> (44100, print ErrorDeviceInfo w2))
           in (Return \<lparr>block_size = bs, config = Map.empty, device = dev, fs = rate,
                       gain = 1.0, smoothing = 0.8,
                       audio_queue = Queue 10, fullscreen = False,
                       ydata = replicate bs 0\<rparr>, w3)))"
  by (simp add: init_def load_config_absent config_get_device_def config_get_float_def
        split: prod.split outcome.split)

lemma init_absent_settings:
  "config_file w = None \<Longrightarrow> init e bs w = (Return s, w') \<Longrightarrow>
   gain s = 1.0 \<and> smoothing s = 0.8 \<and> config s = Map.empty"
  by (auto simp: init_absent Let_def split: prod.splits outcome.splits option.splits)

lemma init_absent_stdout:
  assumes "config_file w = None"
  shows "\<exists>ms. stdout (snd (init e bs w)) = stdout (snd (get_device e PNone w)) @ ms"
proof (cases "get_device e PNone w")
  case (Pair r w2)
  show ?thesis
  proof (cases r)
    case (Raise x)
    then show ?thesis using Pair assms by (simp add: init_absent)
  next
    case (Return dev)
    then show ?thesis using Pair assms
      by (cases "default_samplerate e dev") (simp_all add: init_absent print_def)
  qed
qed

text \<open>
  Claim C5. With no configuration file, \<^verbatim>\<open>load_config\<close> returns the empty dictionary,
  which \<^verbatim>\<open>__init__\<close> reads as: no device index, gain 1.0, smoothing 0.8. Start-up then
  runs with gain 1.0 and smoothing 0.8, and when there is an input device it lists the
  devices and prompts for one, offering the first.
\<close>

theorem no_file_defaults:
  "config_file w = None \<Longrightarrow>
   load_config e w = (Return Map.empty, w)
   \<and> config_get_device Map.empty = PNone
   \<and> config_get_float Map.empty ''gain'' 1.0 = 1.0
   \<and> config_get_float Map.empty ''smoothing'' 0.8 = 0.8
   \<and> (\<forall>s w'. init e bs w = (Return s, w') \<longrightarrow> gain s = 1.0 \<and> smoothing s = 0.8)
   \<and> (\<forall>dev0 others. valid_devices e = dev0 # others \<longrightarrow>
        (\<exists>ms. stdout (snd (init e bs w)) =
           stdout w @ AvailableMicrophones # map (\<lambda>(idx, nm). MicrophoneLine idx nm) (dev0 # others)
             @ SelectPrompt (fst dev0) # ms))"
proof -
  assume a: "config_file w = None"
  have p: "\<forall>dev0 others. valid_devices e = dev0 # others \<longrightarrow>
        (\<exists>ms. stdout (snd (init e bs w)) =
           stdout w @ AvailableMicrophones # map (\<lambda>(idx, nm). MicrophoneLine idx nm) (dev0 # others)
             @ SelectPrompt (fst dev0) # ms)"
  proof (intro allI impI)
    fix dev0 others
    assume v: "valid_devices e = dev0 # others"
    obtain ms1 where m1: "stdout (snd (get_device e PNone w)) =
           stdout w @ AvailableMicrophones # map (\<lambda>(idx, nm). MicrophoneLine idx nm) (dev0 # others)
             @ SelectPrompt (fst dev0) # ms1"
      using get_device_none_prompts [OF v] by blast
    obtain ms2 where m2: "stdout (snd (init e bs w)) = stdout (snd (get_device e PNone w)) @ ms2"
      using init_absent_stdout [OF a] by blast
    show "\<exists>ms. stdout (snd (init e bs w)) =
           stdout w @ AvailableMicrophones # map (\<lambda>(idx, nm). MicrophoneLine idx nm) (dev0 # others)
             @ SelectPrompt (fst dev0) # ms"
      using m1 m2 by simp
  qed
  have s: "\<forall>s w'. init e bs w = (Return s, w') \<longrightarrow> gain s = 1.0 \<and> smoothing s = 0.8"
    using init_absent_settings [OF a] by blast
  show ?thesis
    using p s load_config_absent [OF a]
    by (simp add: config_get_device_def config_get_float_def)
qed

theorem no_file_defaults_witness:
  "config_file (world0\<lparr>stdin := [''2'']\<rparr>) = None
   \<and> load_config env0 (world0\<lparr>stdin := [''2'']\<rparr>) = (Return Map.empty, world0\<lparr>stdin := [''2'']\<rparr>)
   \<and> valid_devices env0 = [(1, ''Built-in microphone''), (2, ''USB microphone'')]
   \<and> fst (init env0 2048 (world0\<lparr>stdin := [''2'']\<rparr>)) =
       Return \<lparr>block_size = 2048, config = Map.empty, device = PInt 2, fs = 44100,
               gain = 1.0, smoothing = 0.8, audio_queue = Queue 10, fullscreen = False,
               ydata = replicate 2048 0\<rparr>
   \<and> stdout (snd (init env0 2048 (world0\<lparr>stdin := [''2'']\<rparr>))) =
       [AvailableMicrophones, MicrophoneLine 1 ''Built-in microphone'',
        MicrophoneLine 2 ''USB microphone'', SelectPrompt 1, ErrorDeviceInfo]"
proof -
  have a: "config_file (world0\<lparr>stdin := [''2'']\<rparr>) = None" by (simp add: world0_def)
  have v: "valid_devices env0 = [(1, ''Built-in microphone''), (2, ''USB microphone'')]"
    by (simp add: valid_devices_def env0_def)
  have sl: "select_loop env0 [(1, ''Built-in microphone''), (2, ''USB microphone'')] 1 [''2'']
              = (Return 2, [], [SelectPrompt 1])"
    by (simp add: selected_is_valid_def env0_def)
  have g: "get_device env0 PNone (world0\<lparr>stdin := [''2'']\<rparr>) =
     (Return (PInt 2), world0\<lparr>stdin := [], stdout := [AvailableMicrophones,
        MicrophoneLine 1 ''Built-in microphone'', MicrophoneLine 2 ''USB microphone'', SelectPrompt 1]\<rparr>)"
    by (simp add: get_device_def v Let_def world0_def sl del: select_loop.simps)
  have r: "default_samplerate env0 (PInt 2) = None" by (simp add: env0_def)
  have i: "init env0 2048 (world0\<lparr>stdin := [''2'']\<rparr>) =
      (Return \<lparr>block_size = 2048, config = Map.empty, device = PInt 2, fs = 44100,
               gain = 1.0, smoothing = 0.8, audio_queue = Queue 10, fullscreen = False,
               ydata = replicate 2048 0\<rparr>,
       print ErrorDeviceInfo (world0\<lparr>stdin := [], stdout := [AvailableMicrophones,
        MicrophoneLine 1 ''Built-in microphone'', MicrophoneLine 2 ''USB microphone'', SelectPrompt 1]\<rparr>))"
    by (simp add: init_absent [OF a] g r)
  show ?thesis
    using no_file_defaults [OF a, of env0 2048] v i a
    by (simp add: print_def world0_def)
qed

text \<open>
  Claim C7. With at least one input device: a saved value that equals the index of an
  input device is returned at once, reading nothing from standard input and showing no
  prompt. Otherwise the devices are listed and a selection is requested, the prompt
  offering the index of the first input device, which an empty line selects; a line
  that is an integer outside the list, or no integer, is consumed and the prompt shown
  again; and any index returned is in the list.
\<close>

theorem get_device_saved_or_prompt:
  "valid_devices e = dev0 # others \<Longrightarrow>
   (saved \<noteq> PNone \<and> saved_is_valid saved (valid_devices e) \<longrightarrow>
      get_device e saved w = (Return saved, print (UsingSavedMicrophone saved) w))
   \<and> (i \<in> fst ` set (valid_devices e) \<longrightarrow>
        get_device e (PInt i) w = (Return (PInt i), print (UsingSavedMicrophone (PInt i)) w)
        \<and> stdin (snd (get_device e (PInt i) w)) = stdin w
        \<and> stdout (snd (get_device e (PInt i) w)) = stdout w @ [UsingSavedMicrophone (PInt i)])
   \<and> (saved = PNone \<or> \<not> saved_is_valid saved (valid_devices e) \<longrightarrow>
        (\<exists>ms. stdout (snd (get_device e saved w)) =
           stdout w @ AvailableMicrophones # map (\<lambda>(idx, nm). MicrophoneLine idx nm) (dev0 # others)
             @ SelectPrompt (fst dev0) # ms)
        \<and> (\<forall>v. fst (get_device e saved w) = Return v \<longrightarrow>
              (\<exists>k \<in> fst ` set (valid_devices e). v = PInt k)))
   \<and> select_loop e (dev0 # others) (fst dev0) ([] # ls) = (Return (fst dev0), ls, [SelectPrompt (fst dev0)])
   \<and> (l \<noteq> [] \<and> int_of_str e l = Some k \<and> k \<notin> fst ` set (dev0 # others) \<longrightarrow>
        select_loop e (dev0 # others) (fst dev0) (l # ls) =
          (fst (select_loop e (dev0 # others) (fst dev0) ls),
           fst (snd (select_loop e (dev0 # others) (fst dev0) ls)),
           SelectPrompt (fst dev0) # snd (snd (select_loop e (dev0 # others) (fst dev0) ls))))
   \<and> (l \<noteq> [] \<and> int_of_str e l = None \<longrightarrow>
        select_loop e (dev0 # others) (fst dev0) (l # ls) =
          (fst (select_loop e (dev0 # others) (fst dev0) ls),
           fst (snd (select_loop e (dev0 # others) (fst dev0) ls)),
           SelectPrompt (fst dev0) # InvalidInput # snd (snd (select_loop e (dev0 # others) (fst dev0) ls))))
   \<and> (\<forall>j. fst (select_loop e (dev0 # others) (fst dev0) ls) = Return j \<longrightarrow>
          j \<in> fst ` set (dev0 # others))"
proof -
  assume v: "valid_devices e = dev0 # others"
  have ne: "valid_devices e \<noteq> []" using v by simp
  have a: "saved \<noteq> PNone \<and> saved_is_valid saved (valid_devices e) \<longrightarrow>
      get_device e saved w = (Return saved, print (UsingSavedMicrophone saved) w)"
    using get_device_saved [OF ne] by blast
  have b: "i \<in> fst ` set (valid_devices e) \<longrightarrow>
        get_device e (PInt i) w = (Return (PInt i), print (UsingSavedMicrophone (PInt i)) w)
        \<and> stdin (snd (get_device e (PInt i) w)) = stdin w
        \<and> stdout (snd (get_device e (PInt i) w)) = stdout w @ [UsingSavedMicrophone (PInt i)]"
    using get_device_saved [OF ne, of "PInt i" w]
    by (simp add: saved_int_is_valid print_def)
  have c: "saved = PNone \<or> \<not> saved_is_valid saved (valid_devices e) \<longrightarrow>
        (\<exists>ms. stdout (snd (get_device e saved w)) =
           stdout w @ AvailableMicrophones # map (\<lambda>(idx, nm). MicrophoneLine idx nm) (dev0 # others)
             @ SelectPrompt (fst dev0) # ms)
        \<and> (\<forall>v. fst (get_device e saved w) = Return v \<longrightarrow>
              (\<exists>k \<in> fst ` set (valid_devices e). v = PInt k))"
    using get_device_prompt_shown [OF v] get_device_prompt_result [OF v] by blast
  have d: "select_loop e (dev0 # others) (fst dev0) ([] # ls)
             = (Return (fst dev0), ls, [SelectPrompt (fst dev0)])"
    by (rule select_loop_default) simp
  have f: "l \<noteq> [] \<and> int_of_str e l = Some k \<and> k \<notin> fst ` set (dev0 # others) \<longrightarrow>
        select_loop e (dev0 # others) (fst dev0) (l # ls) =
          (fst (select_loop e (dev0 # others) (fst dev0) ls),
           fst (snd (select_loop e (dev0 # others) (fst dev0) ls)),
           SelectPrompt (fst dev0) # snd (snd (select_loop e (dev0 # others) (fst dev0) ls)))"
    using select_loop_out_of_set [of l e k "dev0 # others" "fst dev0" ls] by blast
  have g: "l \<noteq> [] \<and> int_of_str e l = None \<longrightarrow>
        select_loop e (dev0 # others) (fst dev0) (l # ls) =
          (fst (select_loop e (dev0 # others) (fst dev0) ls),
           fst (snd (select_loop e (dev0 # others) (fst dev0) ls)),
           SelectPrompt (fst dev0) # InvalidInput # snd (snd (select_loop e (dev0 # others) (fst dev0) ls)))"
    using select_loop_not_numeric [of l e "dev0 # others" "fst dev0" ls] by blast
  have h: "\<forall>j. fst (select_loop e (dev0 # others) (fst dev0) ls) = Return j \<longrightarrow>
          j \<in> fst ` set (dev0 # others)"
    using select_loop_returns_valid by blast
  show ?thesis using a b c d f g h by blast
qed

lemma valid_devices_env0:
  "valid_devices env0 = [(1, ''Built-in microphone''), (2, ''USB microphone'')]"
  by (simp add: valid_devices_def env0_def)

theorem get_device_saved_or_prompt_witness:
  "valid_devices env0 = (1, ''Built-in microphone'') # [(2, ''USB microphone'')]
   \<and> 2 \<in> fst ` set (valid_devices env0)
   \<and> get_device env0 (PInt 2) (world0\<lparr>stdin := [''x'', ''7'', '''']\<rparr>)
       = (Return (PInt 2), world0\<lparr>stdin := [''x'', ''7'', ''''], stdout := [UsingSavedMicrophone (PInt 2)]\<rparr>)
   \<and> \<not> saved_is_valid (PInt 7) (valid_devices env0)
   \<and> get_device env0 (PInt 7) (world0\<lparr>stdin := [''x'', ''7'', '''']\<rparr>)
       = (Return (PInt 1),
          world0\<lparr>stdin := [],
                 stdout := [AvailableMicrophones, MicrophoneLine 1 ''Built-in microphone'',
                            MicrophoneLine 2 ''USB microphone'', SelectPrompt 1, InvalidInput,
                            SelectPrompt 1, SelectPrompt 1]\<rparr>)"
proof -
  note v = valid_devices_env0
  have m: "(2::int) \<in> fst ` set (valid_devices env0)" by (simp add: v)
  have n: "\<not> saved_is_valid (PInt 7) (valid_devices env0)" by (simp add: v saved_is_valid_def)
  have sl: "select_loop env0 [(1, ''Built-in microphone''), (2, ''USB microphone'')] 1 [''x'', ''7'', '''']
              = (Return 1, [], [SelectPrompt 1, InvalidInput, SelectPrompt 1, SelectPrompt 1])"
    by (simp add: selected_is_valid_def env0_def)
  have p: "get_device env0 (PInt 7) (world0\<lparr>stdin := [''x'', ''7'', '''']\<rparr>)
       = (Return (PInt 1),
          world0\<lparr>stdin := [],
                 stdout := [AvailableMicrophones, MicrophoneLine 1 ''Built-in microphone'',
                            MicrophoneLine 2 ''USB microphone'', SelectPrompt 1, InvalidInput,
                            SelectPrompt 1, SelectPrompt 1]\<rparr>)"
    by (simp add: get_device_def v n [unfolded v] Let_def sl world0_def del: select_loop.simps)
  note t = get_device_saved_or_prompt [OF v, of "PInt 7" "world0\<lparr>stdin := [''x'', ''7'', '''']\<rparr>" 2
             "[]" "''7''" 7]
  have s: "get_device env0 (PInt 2) (world0\<lparr>stdin := [''x'', ''7'', '''']\<rparr>)
       = (Return (PInt 2), print (UsingSavedMicrophone (PInt 2)) (world0\<lparr>stdin := [''x'', ''7'', '''']\<rparr>))"
    using t m by blast
  show ?thesis using v m n p s by (simp add: print_def world0_def)
qed

text \<open>
  Claim C9. Whatever \<^verbatim>\<open>get_device\<close> returns, from the saved value or from the prompt,
  is equal to the index of a device of the table with an input channel. From the
  prompt it is that integer; from the saved value it is the saved value itself.
\<close>

theorem get_device_returns_input_device:
  "fst (get_device e saved w) = Return v \<Longrightarrow>
   \<exists>i. py_eq_int v i \<and> (v = PInt i \<or> v = saved) \<and> i \<in> fst ` set (valid_devices e)
       \<and> 0 \<le> i \<and> nat i < length (devices e) \<and> 0 < max_input_channels (devices e ! nat i)"
proof -
  assume r: "fst (get_device e saved w) = Return v"
  from get_device_result [OF r] obtain i where i: "i \<in> fst ` set (valid_devices e)"
    and p: "py_eq_int v i" "v = PInt i \<or> v = saved" by blast
  from valid_devices_eligible [OF i] i p show ?thesis by blast
qed

theorem get_device_returns_input_device_witness:
  "fst (get_device env0 (PInt 2) world0) = Return (PInt 2)
   \<and> fst (get_device env0 (PInt 0) (world0\<lparr>stdin := [''0'', ''2'']\<rparr>)) = Return (PInt 2)
   \<and> (\<exists>i. py_eq_int (PInt 2) i \<and> i \<in> fst ` set (valid_devices env0)
          \<and> 0 \<le> i \<and> nat i < length (devices env0) \<and> 0 < max_input_channels (devices env0 ! nat i))
   \<and> max_input_channels (devices env0 ! 0) = 0"
proof -
  note v = valid_devices_env0
  have a: "fst (get_device env0 (PInt 2) world0) = Return (PInt 2)"
    by (simp add: get_device_def v saved_is_valid_def)
  have sl: "select_loop env0 [(1, ''Built-in microphone''), (2, ''USB microphone'')] 1 [''0'', ''2'']
              = (Return 2, [], [SelectPrompt 1, InvalidInput, SelectPrompt 1])"
    by (simp add: selected_is_valid_def env0_def)
  have b: "fst (get_device env0 (PInt 0) (world0\<lparr>stdin := [''0'', ''2'']\<rparr>)) = Return (PInt 2)"
    by (simp add: get_device_def v saved_is_valid_def Let_def sl del: select_loop.simps)
  have c: "max_input_channels (devices env0 ! 0) = 0" by (simp add: env0_def)
  show ?thesis
    using a b c get_device_returns_input_device [OF b] by auto
qed


section \<open>A stream that does not open\<close>

lemma run_open_fails:
  "\<not> stream_opens e (device s) (fs s) (block_size s) \<Longrightarrow>
   run e evs s w = (s, save_config e (state_config s)
     (w\<lparr>stdout := stdout w @ [Starting, ErrorStartingStream PortAudioError, TryDifferentMicrophone]\<rparr>))"
  by (simp add: run_def print_def Let_def)

text \<open>
  Claim C8. When the stream does not open, \<^verbatim>\<open>run\<close> prints the error and the advice to
  select a different microphone, calls \<^verbatim>\<open>save_config\<close> once on the current settings and
  returns; the object is unchanged, whatever events were pending, so the render loop
  did not run.
\<close>

theorem run_stream_open_fails:
  "\<not> stream_opens e (device s) (fs s) (block_size s) \<Longrightarrow>
   run e evs s w = (s, save_config e (state_config s)
     (w\<lparr>stdout := stdout w @ [Starting, ErrorStartingStream PortAudioError, TryDifferentMicrophone]\<rparr>))
   \<and> (writable w \<longrightarrow>
        snd (run e evs s w) =
          w\<lparr>config_file := Some (Doc (PDict [(''device_index'', device s), (''gain'', PFloat (gain s)),
                                               (''smoothing'', PFloat (smoothing s))])),
            stdout := stdout w @ [Starting, ErrorStartingStream PortAudioError, TryDifferentMicrophone,
                                  SettingsSaved]\<rparr>)
   \<and> (\<not> writable w \<longrightarrow>
        snd (run e evs s w) =
          w\<lparr>stdout := stdout w @ [Starting, ErrorStartingStream PortAudioError, TryDifferentMicrophone,
                                  ErrorSavingConfig OSError]\<rparr>)"
  by (simp add: run_open_fails state_config_def save_config_def json_safe_settings print_def)

theorem run_stream_open_fails_witness:
  "\<not> stream_opens env0 (device scope0) (fs scope0) (block_size scope0)
   \<and> run env0 [Callback [(0.5, [])] False, RenderIteration] scope0 world0 =
       (scope0,
        world0\<lparr>config_file := Some (Doc (PDict [(''device_index'', PInt 2), (''gain'', PFloat 2.0),
                                                (''smoothing'', PFloat 0.8)])),
               stdout := [Starting, ErrorStartingStream PortAudioError, TryDifferentMicrophone,
                          SettingsSaved]\<rparr>)"
proof -
  have n: "\<not> stream_opens env0 (device scope0) (fs scope0) (block_size scope0)"
    by (simp add: env0_def scope0_def)
  have w: "writable world0" by (simp add: world0_def)
  note t = run_stream_open_fails [OF n, of "[Callback [(0.5, [])] False, RenderIteration]" world0]
  have f: "fst (run env0 [Callback [(0.5, [])] False, RenderIteration] scope0 world0) = scope0"
    using t by simp
  have s: "snd (run env0 [Callback [(0.5, [])] False, RenderIteration] scope0 world0) =
          world0\<lparr>config_file := Some (Doc (PDict [(''device_index'', device scope0),
                       (''gain'', PFloat (gain scope0)), (''smoothing'', PFloat (smoothing scope0))])),
            stdout := stdout world0 @ [Starting, ErrorStartingStream PortAudioError,
                        TryDifferentMicrophone, SettingsSaved]\<rparr>"
    using t w by blast
  have "run env0 [Callback [(0.5, [])] False, RenderIteration] scope0 world0 =
       (scope0,
        world0\<lparr>config_file := Some (Doc (PDict [(''device_index'', PInt 2), (''gain'', PFloat 2.0),
                                                (''smoothing'', PFloat 0.8)])),
               stdout := [Starting, ErrorStartingStream PortAudioError, TryDifferentMicrophone,
                          SettingsSaved]\<rparr>)"
    using f s by (simp add: prod_eq_iff scope0_def world0_def)
  then show ?thesis using n by simp
qed

end
